theory Spec2Isabelle
  imports Complex_Main "HOL-Library.AList" "HOL-Library.Sublist"
begin

text \<open>
  A model of the meditation backend: the retry decorator, the model registry and the
  generation client of \<open>GoogleApiCall.py\<close>, the introduction text of \<open>main.py\<close> and the
  session plan of \<open>session_planner.py\<close>, followed by the properties proved of them.
\<close>

section \<open>Python values, strings and exceptions\<close>

text \<open>
  A Python \<open>str\<close> is modelled as a HOL \<open>string\<close>: the list of its code points, for code
  points below 256. Exceptions are values of \<open>exn\<close>; every constructor stands for a subclass
  of Python's \<open>Exception\<close>, so each of them is caught by \<open>except Exception\<close>. A function
  that may raise returns \<open>exn + 'a\<close>, with \<open>Inl\<close> for the raised exception.
\<close>

datatype exn =
    ValueError string
  | KeyError string
  | IndexError string
  | AttributeError string
  | OtherException string

text \<open>Values that occur in request contexts and in cells of the phrase table.\<close>

datatype pyval = PyNone | PyInt int | PyStr string | PyList "pyval list"

text \<open>\<open>str(i)\<close> for a Python int: decimal digits, with a leading minus sign.\<close>

fun digits_of_nat :: "nat \<Rightarrow> string" where
  "digits_of_nat n =
     (if n < 10 then [''0123456789'' ! n]
      else digits_of_nat (n div 10) @ [''0123456789'' ! (n mod 10)])"

declare digits_of_nat.simps [simp del]

definition str_int :: "int \<Rightarrow> string" where
  "str_int i = (if i < 0 then CHR ''-'' # digits_of_nat (nat (- i)) else digits_of_nat (nat i))"

text \<open>\<open>sep.join(xs)\<close>.\<close>

fun join :: "string \<Rightarrow> string list \<Rightarrow> string" where
  "join sep [] = []"
| "join sep [x] = x"
| "join sep (x # y # ys) = x @ sep @ join sep (y # ys)"

text \<open>
  \<open>repr(v)\<close> and \<open>str(v)\<close> (what an f-string field \<open>{v}\<close> prints). The quoting and
  escaping that Python's built-in \<open>repr\<close> applies to a \<open>str\<close> is the parameter \<open>repr_str\<close>.
\<close>

fun py_repr :: "(string \<Rightarrow> string) \<Rightarrow> pyval \<Rightarrow> string" where
  "py_repr repr_str PyNone = ''None''"
| "py_repr repr_str (PyInt i) = str_int i"
| "py_repr repr_str (PyStr s) = repr_str s"
| "py_repr repr_str (PyList vs) = ''['' @ join '', '' (map (py_repr repr_str) vs) @ '']''"

fun py_str :: "(string \<Rightarrow> string) \<Rightarrow> pyval \<Rightarrow> string" where
  "py_str repr_str (PyStr s) = s"
| "py_str repr_str v = py_repr repr_str v"

text \<open>
  \<open>str.isspace\<close> on the code points below 256, and \<open>str.strip()\<close> without argument:
  whitespace is removed at both ends.
\<close>

definition isspace :: "char \<Rightarrow> bool" where
  "isspace c \<longleftrightarrow>
     c \<in> {CHR 0x09, CHR 0x0A, CHR 0x0B, CHR 0x0C, CHR 0x0D, CHR 0x1C, CHR 0x1D, CHR 0x1E,
          CHR 0x1F, CHR 0x20, CHR 0x85, CHR 0xA0}"

definition strip :: "string \<Rightarrow> string" where
  "strip s = rev (dropWhile isspace (rev (dropWhile isspace s)))"

text \<open>\<open>d.get(k, default)\<close> on a dict.\<close>

definition dict_get :: "('k \<rightharpoonup> 'v) \<Rightarrow> 'k \<Rightarrow> 'v \<Rightarrow> 'v" where
  "dict_get d k dflt = (case d k of None \<Rightarrow> dflt | Some v \<Rightarrow> v)"

section \<open>GoogleApiCall.py: the retry decorator\<close>

text \<open>
  Log records are kept by level. An info record carries its message; a warning or error
  record carries the exception its message is formatted from.
\<close>

datatype log_event = LogInfo string | LogWarning exn | LogError exn

text \<open>
  What the wrapper does besides returning: it calls the wrapped function, it logs, and it
  sleeps. The wrapper returns the list of these events in the order they happen; its own
  log records are in this list, the records of the wrapped function are in the state.
\<close>

datatype retry_event = Invoked | Logged log_event | Slept nat

text \<open>
  The \<open>while\<close> loop of \<open>wrapper\<close>. The wrapped function \<open>func\<close> (with its arguments) is a
  state transformer that returns a value (\<open>Inr\<close>) or raises (\<open>Inl\<close>); \<open>retries\<close> is the
  loop counter. The result \<open>Inr None\<close> is the \<open>return None\<close> after the loop. The \<open>delay\<close>
  is a number of seconds, which \<open>time.sleep\<close> requires to be non-negative.
\<close>

function wrapper ::
  "int \<Rightarrow> nat \<Rightarrow> ('s \<Rightarrow> (exn + 'a) \<times> 's) \<Rightarrow> int \<Rightarrow> 's
     \<Rightarrow> (exn + 'a option) \<times> 's \<times> retry_event list" where
  "wrapper max_retries delay func retries s =
     (if retries < max_retries then
        (case func s of
           (Inr v, s') \<Rightarrow> (Inr (Some v), s', [Invoked])
         | (Inl e, s') \<Rightarrow>
             (if retries + 1 = max_retries
              then (Inl e, s', [Invoked, Logged (LogError e)])
              else (case wrapper max_retries delay func (retries + 1) s' of
                      (r, s'', evs) \<Rightarrow>
                        (r, s'', Invoked # Logged (LogWarning e) # Slept delay # evs))))
      else (Inr None, s, []))"
  by pat_completeness auto
termination
  by (relation "measure (\<lambda>(m, d, f, r, s). nat (m - r))") auto

declare wrapper.simps [simp del]

text \<open>
  \<open>retry_on_error(max_retries, delay)(func)\<close>: the decorated function starts the loop with
  \<open>retries = 0\<close>. The only use in the source passes both parameters (3 and 5, which are
  also their defaults).
\<close>

definition retry_on_error ::
  "int \<Rightarrow> nat \<Rightarrow> ('s \<Rightarrow> (exn + 'a) \<times> 's) \<Rightarrow> 's
     \<Rightarrow> (exn + 'a option) \<times> 's \<times> retry_event list" where
  "retry_on_error max_retries delay func s = wrapper max_retries delay func 0 s"

text \<open>Readers of the event list.\<close>

definition invocations :: "retry_event list \<Rightarrow> nat" where
  "invocations evs = length (filter (\<lambda>ev. ev = Invoked) evs)"

fun is_sleep :: "retry_event \<Rightarrow> bool" where
  "is_sleep (Slept d) = True"
| "is_sleep ev = False"

definition sleeps :: "retry_event list \<Rightarrow> retry_event list" where
  "sleeps evs = filter is_sleep evs"

text \<open>The state in which the \<open>k\<close>-th next invocation of \<open>func\<close> starts (counting from 0).\<close>

definition state_after :: "('s \<Rightarrow> (exn + 'a) \<times> 's) \<Rightarrow> nat \<Rightarrow> 's \<Rightarrow> 's" where
  "state_after func k s = ((\<lambda>t. snd (func t)) ^^ k) s"

section \<open>GoogleApiCall.py: the model registry and the client\<close>

record model_config =
  temperature :: real
  top_p :: real
  top_k :: int
  max_output_tokens :: int

text \<open>
  A dict from model name to configuration, in insertion order: assigning to a key that is
  present replaces its value in place, assigning to a new key appends it.
\<close>

type_synonym registry = "(string \<times> model_config) list"

definition DEFAULT_MODEL :: string where
  "DEFAULT_MODEL = ''gemini-2.5-flash''"

definition MODEL_CONFIGS :: registry where
  "MODEL_CONFIGS =
     [(''gemini-2.5-flash'',
         \<lparr>temperature = 0.5, top_p = 0.95, top_k = 40, max_output_tokens = 8000\<rparr>),
      (''gemini-1.0-pro-latest'',
         \<lparr>temperature = 0.7, top_p = 0.95, top_k = 40, max_output_tokens = 8000\<rparr>),
      (''gemini-2.5-pro'',
         \<lparr>temperature = 0.9, top_p = 0.95, top_k = 40, max_output_tokens = 8000\<rparr>)]"

text \<open>The object \<open>genai.GenerativeModel(model_name=..., generation_config=...)\<close>.\<close>

record model_handle =
  handle_model_name :: string
  generation_config :: model_config

text \<open>An instance of \<open>GoogleApiCall\<close>.\<close>

record client =
  model_name :: string
  model :: "model_handle option"

text \<open>
  The process state the client reads and writes: \<open>os.environ\<close>, the content of the
  \<open>.env\<close> file, the class attribute \<open>MODEL_CONFIGS\<close>, the key given to \<open>genai.configure\<close>,
  the state of the remote service and the log.
\<close>

record 'r world =
  environ :: "string \<rightharpoonup> string"
  dotenv_file :: "string \<rightharpoonup> string"
  cls_MODEL_CONFIGS :: registry
  genai_api_key :: "string option"
  remote :: 'r
  log :: "log_event list"

text \<open>
  The remote call \<open>model.generate_content(message)\<close> followed by \<open>response.text\<close>: it
  returns the text or raises, and changes the state of the remote service.
\<close>

type_synonym 'r remote_api = "model_handle \<Rightarrow> string \<Rightarrow> 'r \<Rightarrow> (exn + string) \<times> 'r"

definition logging :: "log_event \<Rightarrow> 'r world \<Rightarrow> 'r world" where
  "logging ev w = w\<lparr>log := log w @ [ev]\<rparr>"

text \<open>\<open>load_dotenv()\<close>: variables of the \<open>.env\<close> file are added where the environment has none.\<close>

definition load_dotenv :: "'r world \<Rightarrow> 'r world" where
  "load_dotenv w = w\<lparr>environ := dotenv_file w ++ environ w\<rparr>"

text \<open>
  Lines 84-87: \<open>MODEL_CONFIGS.get(model_name, MODEL_CONFIGS[DEFAULT_MODEL])\<close>. The default
  argument is evaluated before the lookup, and raises \<open>KeyError\<close> when the default key is absent.
\<close>

definition resolve_config :: "registry \<Rightarrow> string \<Rightarrow> exn + model_config" where
  "resolve_config configs name =
     (case map_of configs DEFAULT_MODEL of
        None \<Rightarrow> Inl (KeyError DEFAULT_MODEL)
      | Some dflt \<Rightarrow> Inr (dict_get (map_of configs) name dflt))"

text \<open>The \<open>try\<close> block of \<open>_initialize_genai\<close>.\<close>

definition initialize_genai_try ::
  "client \<Rightarrow> 'r world \<Rightarrow> (exn + unit) \<times> client \<times> 'r world" where
  "initialize_genai_try self w =
     (let w1 = load_dotenv w in
      case environ w1 ''GOOGLE_API_KEY'' of
        None \<Rightarrow> (Inl (ValueError ''GOOGLE_API_KEY environment variable not set''), self, w1)
      | Some api_key \<Rightarrow>
          if api_key = []
          then (Inl (ValueError ''GOOGLE_API_KEY environment variable not set''), self, w1)
          else
            (let w2 = w1\<lparr>genai_api_key := Some api_key\<rparr> in
             case resolve_config (cls_MODEL_CONFIGS w2) (model_name self) of
               Inl e \<Rightarrow> (Inl e, self, w2)
             | Inr cfg \<Rightarrow>
                 (Inr (),
                  self\<lparr>model := Some \<lparr>handle_model_name = model_name self,
                                        generation_config = cfg\<rparr>\<rparr>,
                  logging (LogInfo (''Initialized model: '' @ model_name self)) w2)))"

text \<open>\<open>_initialize_genai\<close>: the \<open>except\<close> clause logs the exception and raises it again.\<close>

definition initialize_genai ::
  "client \<Rightarrow> 'r world \<Rightarrow> (exn + unit) \<times> client \<times> 'r world" where
  "initialize_genai self w =
     (case initialize_genai_try self w of
        (Inl e, self', w') \<Rightarrow> (Inl e, self', logging (LogError e) w')
      | (Inr u, self', w') \<Rightarrow> (Inr u, self', w'))"

text \<open>
  \<open>__init__\<close>: \<open>model_name or DEFAULT_MODEL\<close> takes the default for \<open>None\<close> and for the
  empty string. When \<open>_initialize_genai\<close> raises there is no client.
\<close>

definition GoogleApiCall_init :: "string option \<Rightarrow> 'r world \<Rightarrow> (exn + client) \<times> 'r world" where
  "GoogleApiCall_init name w =
     (let self = \<lparr>model_name = (case name of
                                  None \<Rightarrow> DEFAULT_MODEL
                                | Some n \<Rightarrow> if n = [] then DEFAULT_MODEL else n),
                  model = None\<rparr> in
      case initialize_genai self w of
        (Inl e, self', w') \<Rightarrow> (Inl e, w')
      | (Inr u, self', w') \<Rightarrow> (Inr self', w'))"

text \<open>The \<open>try\<close> block of \<open>generate_content\<close>, on the state \<open>(self, world)\<close>.\<close>

definition generate_content_try ::
  "'r remote_api \<Rightarrow> string \<Rightarrow> client \<times> 'r world \<Rightarrow> (exn + string) \<times> client \<times> 'r world" where
  "generate_content_try api message st =
     (case (if model (fst st) = None then initialize_genai (fst st) (snd st)
            else (Inr (), fst st, snd st)) of
        (Inl e, self, w) \<Rightarrow> (Inl e, self, w)
      | (Inr u, self, w) \<Rightarrow>
          (let w1 = logging (LogInfo (''Starting content generation with model '' @ model_name self)) w;
               w2 = logging (LogInfo (''Input length: '' @ str_int (int (length message))
                                        @ '' characters'')) w1 in
           case model self of
             None \<Rightarrow> (Inl (AttributeError ''generate_content''), self, w2)
           | Some h \<Rightarrow>
               (case api h message (remote w2) of
                  (Inl e, r') \<Rightarrow> (Inl e, self, w2\<lparr>remote := r'\<rparr>)
                | (Inr text, r') \<Rightarrow>
                    (let generated_text = strip text; w3 = w2\<lparr>remote := r'\<rparr> in
                     if generated_text = []
                     then (Inl (ValueError ''Generated content is empty''), self, w3)
                     else (Inr generated_text, self,
                           logging (LogInfo (''Generated content length: ''
                                      @ str_int (int (length generated_text)) @ '' characters''))
                             w3)))))"

text \<open>The undecorated \<open>generate_content\<close>: the \<open>except\<close> clause logs and raises again.\<close>

definition generate_content_body ::
  "'r remote_api \<Rightarrow> string \<Rightarrow> client \<times> 'r world \<Rightarrow> (exn + string) \<times> client \<times> 'r world" where
  "generate_content_body api message st =
     (case generate_content_try api message st of
        (Inl e, self, w) \<Rightarrow> (Inl e, self, logging (LogError e) w)
      | (Inr t, self, w) \<Rightarrow> (Inr t, self, w))"

text \<open>\<open>generate_content\<close> as decorated with \<open>@retry_on_error(max_retries=3, delay=5)\<close>.\<close>

definition generate_content ::
  "'r remote_api \<Rightarrow> string \<Rightarrow> client \<times> 'r world
     \<Rightarrow> (exn + string option) \<times> (client \<times> 'r world) \<times> retry_event list" where
  "generate_content api message st = retry_on_error 3 5 (generate_content_body api message) st"

definition get_available_models :: "'r world \<Rightarrow> string list" where
  "get_available_models w = map fst (cls_MODEL_CONFIGS w)"

definition add_model_config :: "string \<Rightarrow> model_config \<Rightarrow> 'r world \<Rightarrow> 'r world" where
  "add_model_config name config w =
     logging (LogInfo (''Added configuration for model: '' @ name))
       (w\<lparr>cls_MODEL_CONFIGS := AList.update name config (cls_MODEL_CONFIGS w)\<rparr>)"

text \<open>A sequence of \<open>add_model_config\<close> calls, in order.\<close>

definition register_all :: "(string \<times> model_config) list \<Rightarrow> 'r world \<Rightarrow> 'r world" where
  "register_all regs w = foldl (\<lambda>w' (name, config). add_model_config name config w') w regs"

section \<open>main.py: the introduction text\<close>

record CheckinData =
  agitation :: "int option"
  energy :: "string option"
  emotions :: "string list option"
  preference :: "string option"

record IntroductionRequest =
  meditation_type :: string
  duration_minutes :: int
  user_profile :: "string option"
  checkin_data :: "CheckinData option"

text \<open>The value of an optional field as a Python value.\<close>

definition opt_int :: "int option \<Rightarrow> pyval" where
  "opt_int x = (case x of None \<Rightarrow> PyNone | Some i \<Rightarrow> PyInt i)"

definition opt_str :: "string option \<Rightarrow> pyval" where
  "opt_str x = (case x of None \<Rightarrow> PyNone | Some s \<Rightarrow> PyStr s)"

definition opt_strs :: "string list option \<Rightarrow> pyval" where
  "opt_strs x = (case x of None \<Rightarrow> PyNone | Some xs \<Rightarrow> PyList (map PyStr xs))"

text \<open>
  \<open>_build_introduction_context\<close>. \<open>user_profile or "New meditator"\<close> replaces \<open>None\<close> and
  the empty string; a check-in object is always truthy, so its four fields are added
  whenever it is present.
\<close>

definition build_introduction_context :: "IntroductionRequest \<Rightarrow> (string \<rightharpoonup> pyval)" where
  "build_introduction_context request =
     (let context =
            [''meditation_type'' \<mapsto> PyStr (meditation_type request),
             ''duration_minutes'' \<mapsto> PyInt (duration_minutes request),
             ''user_profile'' \<mapsto> PyStr (case user_profile request of
                                            None \<Rightarrow> ''New meditator''
                                          | Some p \<Rightarrow> if p = [] then ''New meditator'' else p)]
      in case checkin_data request of
           None \<Rightarrow> context
         | Some c \<Rightarrow>
             context ++
               [''agitation_level'' \<mapsto> opt_int (agitation c),
                ''energy_level'' \<mapsto> opt_str (energy c),
                ''current_emotions'' \<mapsto> opt_strs (emotions c),
                ''meditation_preference'' \<mapsto> opt_str (preference c)])"

definition introduction_prompt_head :: string where
  \<open>introduction_prompt_head = ''\<newline>You are a wise, experienced meditation teacher starting a session with a student.\<newline>\<newline>STUDENT CONTEXT:\<newline>- Profile: ''\<close>

definition introduction_prompt_instructions :: string where
  \<open>introduction_prompt_instructions = ''\<newline>\<newline>INSTRUCTIONS:\<newline>Create a warm, personalized introduction (30-45 words) that:\<newline>1. Acknowledges their current state with compassion\<newline>2. Sets realistic expectations for the session\<newline>3. Gives initial settling guidance\<newline>4. Feels personal and encouraging\<newline>\<newline>Be natural and authentic, not overly spiritual. Speak directly to them.\<newline>\<newline>Examples of good tone:\<newline>- "I can sense you're carrying some stress today. That's exactly why we're here..."\<newline>- "Your mind seems quite active right now, which is perfectly normal..."\<newline>- "I notice you're feeling a bit low energy - let's work with that..."\<newline>\<newline>Generate the introduction:\<newline>''\<close>

text \<open>
  The f-string of \<open>_generate_introduction_text\<close>. Its fields are evaluated from left to
  right; \<open>context['meditation_type']\<close> and \<open>context['duration_minutes']\<close> raise \<open>KeyError\<close>
  on a missing key.
\<close>

definition introduction_prompt :: "(string \<Rightarrow> string) \<Rightarrow> (string \<rightharpoonup> pyval) \<Rightarrow> exn + string" where
  \<open>introduction_prompt repr_str context =
     (case context ''meditation_type'' of
        None \<Rightarrow> Inl (KeyError ''meditation_type'')
      | Some mt \<Rightarrow>
          (case context ''duration_minutes'' of
             None \<Rightarrow> Inl (KeyError ''duration_minutes'')
           | Some dm \<Rightarrow>
               Inr (introduction_prompt_head
                    @ py_str repr_str (dict_get context ''user_profile'' (PyStr ''New meditator''))
                    @ ''\<newline>- Today's practice: '' @ py_str repr_str mt
                    @ '' for '' @ py_str repr_str dm
                    @ '' minutes\<newline>- Current agitation level: ''
                    @ py_str repr_str (dict_get context ''agitation_level'' (PyStr ''unknown''))
                    @ ''/5\<newline>- Energy level: ''
                    @ py_str repr_str (dict_get context ''energy_level'' (PyStr ''normal''))
                    @ ''\<newline>- Present emotions: ''
                    @ py_str repr_str (dict_get context ''current_emotions'' (PyList []))
                    @ ''\<newline>- Preference: ''
                    @ py_str repr_str (dict_get context ''meditation_preference'' (PyStr ''auto''))
                    @ introduction_prompt_instructions)))\<close>

text \<open>The f-string of the fallback introduction, in the \<open>except\<close> clause.\<close>

definition fallback_introduction :: "(string \<Rightarrow> string) \<Rightarrow> (string \<rightharpoonup> pyval) \<Rightarrow> exn + string" where
  \<open>fallback_introduction repr_str context =
     (case context ''duration_minutes'' of
        None \<Rightarrow> Inl (KeyError ''duration_minutes'')
      | Some dm \<Rightarrow>
          (case context ''meditation_type'' of
             None \<Rightarrow> Inl (KeyError ''meditation_type'')
           | Some mt \<Rightarrow>
               Inr (''Welcome to your '' @ py_str repr_str dm @ ''-minute '' @ py_str repr_str mt
                    @ '' practice. Take a moment to settle in and let's begin this journey together.'')))\<close>

text \<open>
  \<open>_generate_introduction_text\<close>, on the module's client \<open>google_ai\<close> and the world. A
  \<open>None\<close> from the client has no \<open>strip\<close>: the \<open>AttributeError\<close> is raised inside the \<open>try\<close>
  and handled like any other exception.
\<close>

definition generate_introduction_text ::
  "(string \<Rightarrow> string) \<Rightarrow> 'r remote_api \<Rightarrow> (string \<rightharpoonup> pyval) \<Rightarrow> client \<times> 'r world
     \<Rightarrow> (exn + string) \<times> (client \<times> 'r world) \<times> retry_event list" where
  "generate_introduction_text repr_str api context st =
     (case introduction_prompt repr_str context of
        Inl e \<Rightarrow> (Inl e, st, [])
      | Inr prompt \<Rightarrow>
          (case generate_content api prompt st of
             (Inr (Some introduction), st', evs) \<Rightarrow> (Inr (strip introduction), st', evs)
           | (Inr None, (c, w), evs) \<Rightarrow>
               (fallback_introduction repr_str context,
                (c, logging (LogError (AttributeError ''strip'')) w), evs)
           | (Inl e, (c, w), evs) \<Rightarrow>
               (fallback_introduction repr_str context, (c, logging (LogError e) w), evs)))"

section \<open>session_planner.py\<close>

text \<open>
  A loaded \<open>DataFrame\<close>: its columns in order, each with its name and its values in row
  order.
\<close>

type_synonym dataframe = "(string \<times> pyval list) list"

record SessionPlanner =
  csv_path :: string
  phrases_df :: dataframe
  google_ai :: client

text \<open>
  \<open>get_available_phrases\<close>: \<open>phrases_df.iloc[:, 0].tolist()\<close>, which raises \<open>IndexError\<close>
  on a table without columns.
\<close>

definition get_available_phrases :: "SessionPlanner \<Rightarrow> string \<Rightarrow> exn + pyval list" where
  "get_available_phrases self mtype =
     (case phrases_df self of
        [] \<Rightarrow> Inl (IndexError ''single positional indexer is out-of-bounds'')
      | (name, col) # cols \<Rightarrow> Inr col)"

definition build_ai_prompt_categories :: string where
  \<open>build_ai_prompt_categories = ''\<newline>\<newline>Categories:\<newline>- 1-5: Opening (settling, initial breath awareness)\<newline>- 6-13: Basic breath awareness \<newline>- 14-19: Deep breathing\<newline>- 20-25: Calming body/mind\<newline>- 26-31: Smiling/releasing\<newline>- 32-37: Present moment awareness\<newline>\<newline>Select 6-10 phrases and return ONLY this format:\<newline>sequence,phrase_id,minute\<newline>\<newline>Example:\<newline>1,1,0\<newline>2,6,2\<newline>3,14,5\<newline>\<newline>Just the CSV data, nothing else.\<newline>''\<close>

text \<open>\<open>_build_ai_prompt\<close>; \<open>previous_pattern\<close> is not used in the text.\<close>

definition build_ai_prompt ::
  "(string \<Rightarrow> string) \<Rightarrow> string \<Rightarrow> int \<Rightarrow> pyval \<Rightarrow> pyval \<Rightarrow> pyval \<Rightarrow> pyval \<Rightarrow> pyval list \<Rightarrow> string" where
  \<open>build_ai_prompt repr_str mtype minutes user_experience user_mood time_of_day previous_pattern
       available_phrase_ids =
     ''\<newline>Create a '' @ str_int minutes @ ''-minute '' @ mtype
     @ '' session for a '' @ py_str repr_str user_experience
     @ '' practitioner who is feeling '' @ py_str repr_str user_mood
     @ '' in the '' @ py_str repr_str time_of_day
     @ ''.\<newline>\<newline>Available phrases: '' @ py_str repr_str (PyList available_phrase_ids)
     @ build_ai_prompt_categories\<close>

definition create_default_csv :: "int \<Rightarrow> string" where
  \<open>create_default_csv minutes =
     (if minutes \<le> 10 then ''1,1,0\<newline>2,6,2\<newline>3,14,5\<newline>4,32,8''
      else if minutes \<le> 20
        then ''1,1,0\<newline>2,6,2\<newline>3,14,5\<newline>4,20,8\<newline>5,26,12\<newline>6,32,15''
      else ''1,1,0\<newline>2,6,3\<newline>3,14,6\<newline>4,20,10\<newline>5,26,15\<newline>6,32,20\<newline>7,35,25'')\<close>

text \<open>
  \<open>create_session_plan\<close>. \<open>user_context or {}\<close> replaces \<open>None\<close> (and an empty dict) by
  the empty dict. The planner is returned with its client as the call left it.
\<close>

definition create_session_plan ::
  "(string \<Rightarrow> string) \<Rightarrow> 'r remote_api \<Rightarrow> SessionPlanner \<Rightarrow> string \<Rightarrow> int
     \<Rightarrow> (string \<rightharpoonup> pyval) option \<Rightarrow> 'r world
     \<Rightarrow> (exn + string) \<times> SessionPlanner \<times> 'r world \<times> retry_event list" where
  "create_session_plan repr_str api self mtype minutes user_context w =
     (case get_available_phrases self mtype of
        Inl e \<Rightarrow> (Inl e, self, w, [])
      | Inr available_phrase_ids \<Rightarrow>
          (let context = (case user_context of None \<Rightarrow> Map.empty | Some c \<Rightarrow> c);
               user_experience = dict_get context ''experience_level'' (PyStr ''beginner'');
               user_mood = dict_get context ''mood'' (PyStr ''neutral'');
               time_of_day = dict_get context ''time_of_day'' (PyStr ''any'');
               previous_pattern = dict_get context ''previous_sessions'' (PyStr ''none'');
               prompt = build_ai_prompt repr_str mtype minutes user_experience user_mood
                          time_of_day previous_pattern (take 37 available_phrase_ids)
           in case generate_content api prompt (google_ai self, w) of
                (Inr (Some csv_response), (c, w'), evs) \<Rightarrow>
                  (Inr (strip csv_response), self\<lparr>google_ai := c\<rparr>, w', evs)
              | (Inr None, (c, w'), evs) \<Rightarrow>
                  (Inr (create_default_csv minutes), self\<lparr>google_ai := c\<rparr>,
                   logging (LogError (AttributeError ''strip'')) w', evs)
              | (Inl e, (c, w'), evs) \<Rightarrow>
                  (Inr (create_default_csv minutes), self\<lparr>google_ai := c\<rparr>,
                   logging (LogError e) w', evs)))"

section \<open>Test doubles\<close>

text \<open>
  Stand-ins for the wrapped operation and for the remote service, used in the examples.
  \<open>picky_api\<close> refuses the messages that begin like a session-plan prompt and answers
  the others.
\<close>

definition failing_operation :: "nat \<Rightarrow> (exn + unit) \<times> nat" where
  "failing_operation t = (Inl (ValueError ''boom''), Suc t)"

definition counting_operation :: "nat \<Rightarrow> (exn + unit) \<times> nat" where
  "counting_operation t = (Inr (), Suc t)"

definition failing_api :: "unit remote_api" where
  "failing_api h m r = (Inl (OtherException ''service unavailable''), r)"


definition picky_api :: "unit remote_api" where
  \<open>picky_api h m r =
     (if take 8 m = ''\<newline>Create '' then (Inl (OtherException ''blocked''), r)
      else (Inr ''1,1,0'', r))\<close>

definition capturing_api :: "string list remote_api" where
  "capturing_api h m r = (Inr ''ok'', r @ [m])"

definition test_world :: "unit world" where
  "test_world =
     \<lparr>environ = [''GOOGLE_API_KEY'' \<mapsto> ''secret''], dotenv_file = Map.empty,
      cls_MODEL_CONFIGS = MODEL_CONFIGS, genai_api_key = None, remote = (), log = []\<rparr>"

definition test_planner :: SessionPlanner where
  "test_planner =
     \<lparr>csv_path = ''phrase_list_with_audio.csv'',
      phrases_df = [(''id'', [PyInt 1, PyInt 2, PyInt 3]), (''phrase'', [PyStr ''a'', PyStr ''b'', PyStr ''c''])],
      google_ai = \<lparr>model_name = ''gemini-2.5-flash'',
        model = Some \<lparr>handle_model_name = ''gemini-2.5-flash'',
                       generation_config = \<lparr>temperature = 0.5, top_p = 0.95, top_k = 40,
                                             max_output_tokens = 8000\<rparr>\<rparr>\<rparr>\<rparr>"

definition test_client :: client where
  "test_client =
     \<lparr>model_name = ''gemini-2.5-flash'',
      model = Some \<lparr>handle_model_name = ''gemini-2.5-flash'',
                     generation_config = \<lparr>temperature = 0.5, top_p = 0.95, top_k = 40,
                                           max_output_tokens = 8000\<rparr>\<rparr>\<rparr>"

section \<open>The retry loop\<close>

lemma state_after_Suc: "state_after func (Suc k) s = state_after func k (snd (func s))"
  using funpow_swap1 [of "\<lambda>t. snd (func t)" k s] by (simp add: state_after_def)

lemma state_after_0: "state_after func 0 s = s"
  by (simp add: state_after_def)

lemma wrapper_not_entered:
  "\<not> retries < max_retries \<Longrightarrow> wrapper max_retries delay func retries s = (Inr None, s, [])"
  by (simp add: wrapper.simps)

lemma wrapper_success:
  "retries < max_retries \<Longrightarrow> func s = (Inr v, s') \<Longrightarrow>
   wrapper max_retries delay func retries s = (Inr (Some v), s', [Invoked])"
  by (simp add: wrapper.simps)

lemma wrapper_last_failure:
  "retries < max_retries \<Longrightarrow> func s = (Inl e, s') \<Longrightarrow> retries + 1 = max_retries \<Longrightarrow>
   wrapper max_retries delay func retries s = (Inl e, s', [Invoked, Logged (LogError e)])"
  by (subst wrapper.simps) simp

lemma wrapper_retry:
  "retries < max_retries \<Longrightarrow> func s = (Inl e, s') \<Longrightarrow> retries + 1 \<noteq> max_retries \<Longrightarrow>
   wrapper max_retries delay func retries s =
     (case wrapper max_retries delay func (retries + 1) s' of
        (r, s'', evs) \<Rightarrow> (r, s'', Invoked # Logged (LogWarning e) # Slept delay # evs))"
  by (subst wrapper.simps) simp

lemma wrapper_all_fail:
  shows "\<forall>t. isl (fst (func t)) \<Longrightarrow> retries < max_retries \<Longrightarrow>
         (\<exists>pre s'. wrapper max_retries delay func retries s =
            (Inl (projl (fst (func (state_after func (nat (max_retries - retries) - 1) s)))), s',
             pre @ [Invoked, Logged (LogError
                (projl (fst (func (state_after func (nat (max_retries - retries) - 1) s)))))])
          \<and> s' = state_after func (nat (max_retries - retries)) s
          \<and> invocations pre = nat (max_retries - retries) - 1
          \<and> sleeps pre = replicate (nat (max_retries - retries) - 1) (Slept delay))"
proof (induction max_retries delay func retries s rule: wrapper.induct)
  case (1 max_retries delay func retries s)
  from "1.prems" have lt0: "retries < max_retries" and fails: "\<forall>t. isl (fst (func t))"
    by simp_all
  from fails have "isl (fst (func s))" by simp
  then obtain e s' where fs: "func s = (Inl e, s')"
    by (cases "func s") (auto simp: isl_def)
  show ?case
  proof (cases "retries + 1 = max_retries")
    case True
    then have "nat (max_retries - retries) - 1 = 0" by simp
    moreover from True have "nat (max_retries - retries) = Suc 0" by simp
    ultimately show ?thesis using True fs lt0
      by (simp add: wrapper_last_failure state_after_0 state_after_Suc invocations_def sleeps_def)
  next
    case False
    with lt0 have lt: "retries + 1 < max_retries" by simp
    have k: "nat (max_retries - retries) - 1 = Suc (nat (max_retries - (retries + 1)) - 1)"
      using lt by simp
    from "1.IH"[OF lt0 fs[symmetric] refl False fails lt]
    obtain pre s'' where
      w: "wrapper max_retries delay func (retries + 1) s' =
            (Inl (projl (fst (func (state_after func (nat (max_retries - (retries + 1)) - 1) s')))), s'',
             pre @ [Invoked, Logged (LogError
                (projl (fst (func (state_after func (nat (max_retries - (retries + 1)) - 1) s')))))])"
      and st: "s'' = state_after func (nat (max_retries - (retries + 1))) s'"
      and i: "invocations pre = nat (max_retries - (retries + 1)) - 1"
      and sl: "sleeps pre = replicate (nat (max_retries - (retries + 1)) - 1) (Slept delay)"
      by blast
    have sa: "state_after func (nat (max_retries - retries) - 1) s =
              state_after func (nat (max_retries - (retries + 1)) - 1) s'"
      unfolding k state_after_Suc using fs by simp
    have step: "wrapper max_retries delay func retries s =
        (case wrapper max_retries delay func (retries + 1) s' of
           (r, s'', evs) \<Rightarrow> (r, s'', Invoked # Logged (LogWarning e) # Slept delay # evs))"
      using lt0 fs False by (rule wrapper_retry)
    define m where "m = nat (max_retries - (retries + 1)) - 1"
    have km: "nat (max_retries - retries) - 1 = Suc m"
      using k by (simp add: m_def)
    have i': "invocations (Invoked # Logged (LogWarning e) # Slept delay # pre) =
                nat (max_retries - retries) - 1"
      unfolding km using i [folded m_def] by (simp add: invocations_def)
    have sl': "sleeps (Invoked # Logged (LogWarning e) # Slept delay # pre) =
                replicate (nat (max_retries - retries) - 1) (Slept delay)"
      unfolding km using sl [folded m_def] by (simp add: sleeps_def)
    have "wrapper max_retries delay func retries s =
            (Inl (projl (fst (func (state_after func (nat (max_retries - retries) - 1) s)))), s'',
             (Invoked # Logged (LogWarning e) # Slept delay # pre) @ [Invoked, Logged (LogError
                (projl (fst (func (state_after func (nat (max_retries - retries) - 1) s)))))])"
      unfolding step w sa by simp
    moreover have "s'' = state_after func (nat (max_retries - retries)) s"
    proof -
      have "nat (max_retries - retries) = Suc (nat (max_retries - (retries + 1)))"
        using lt by simp
      then show ?thesis using st fs by (simp add: state_after_Suc)
    qed
    ultimately show ?thesis using i' sl' by blast
  qed
qed

section \<open>Claims about the retry decorator\<close>

text \<open>
  C1. For every \<open>max_retries = n \<ge> 1\<close> and every operation that raises on every
  invocation, the wrapper made by \<open>retry_on_error(max_retries=n, delay=d)\<close> invokes the
  operation exactly \<open>n\<close> times (the final state is the state after \<open>n\<close> invocations and
  the event list has \<open>n\<close> invocations), sleeps exactly \<open>n - 1\<close> times, each for \<open>d\<close>, with no
  sleep after the last failed attempt (the events end with that invocation and the error
  log), and raises the exception of the last invocation.
\<close>

theorem retry_on_error_exhausts:
  assumes "1 \<le> n" and "\<forall>t. isl (fst (func t))"
  shows "fst (retry_on_error n d func s) = Inl (projl (fst (func (state_after func (nat n - 1) s))))
       \<and> fst (snd (retry_on_error n d func s)) = state_after func (nat n) s
       \<and> invocations (snd (snd (retry_on_error n d func s))) = nat n
       \<and> sleeps (snd (snd (retry_on_error n d func s))) = replicate (nat n - 1) (Slept d)
       \<and> suffix [Invoked, Logged (LogError (projl (fst (func (state_after func (nat n - 1) s)))))]
             (snd (snd (retry_on_error n d func s)))"
proof -
  from assms(1) have lt: "0 < n" by simp
  from wrapper_all_fail [OF assms(2) lt, of d s]
  obtain pre s' where
    w: "wrapper n d func 0 s =
          (Inl (projl (fst (func (state_after func (nat n - 1) s)))), s',
           pre @ [Invoked, Logged (LogError (projl (fst (func (state_after func (nat n - 1) s)))))])"
    and st: "s' = state_after func (nat n) s"
    and i: "invocations pre = nat n - 1"
    and sl: "sleeps pre = replicate (nat n - 1) (Slept d)"
    by auto
  have "invocations (pre @ [Invoked, Logged (LogError
          (projl (fst (func (state_after func (nat n - 1) s)))))]) = nat n"
    using i lt by (simp add: invocations_def)
  moreover have "sleeps (pre @ [Invoked, Logged (LogError
          (projl (fst (func (state_after func (nat n - 1) s)))))]) = replicate (nat n - 1) (Slept d)"
    using sl by (simp add: sleeps_def)
  ultimately show ?thesis
    unfolding retry_on_error_def w using st by (simp add: suffix_def)
qed

theorem retry_on_error_exhausts_witness:
  "(1::int) \<le> 3
   \<and> fst (retry_on_error 3 5 failing_operation 0) = Inl (ValueError ''boom'')
   \<and> fst (snd (retry_on_error 3 5 failing_operation 0)) = 3
   \<and> invocations (snd (snd (retry_on_error 3 5 failing_operation 0))) = 3
   \<and> sleeps (snd (snd (retry_on_error 3 5 failing_operation 0))) = [Slept 5, Slept 5]"
proof -
  have h1: "(1::int) \<le> 3" by simp
  have h2: "\<forall>t. isl (fst (failing_operation t))"
    by (simp add: failing_operation_def)
  have sa: "state_after failing_operation k 0 = k" for k
    by (induction k) (simp_all add: state_after_def failing_operation_def)
  have e: "projl (fst (failing_operation t)) = ValueError ''boom''" for t
    by (simp add: failing_operation_def)
  have rep: "replicate (nat 3 - 1) (Slept 5) = [Slept 5, Slept 5]"
    by (simp add: numeral_eq_Suc)
  from retry_on_error_exhausts [OF h1 h2, of 5 0] show ?thesis
    unfolding sa e rep by simp
qed

text \<open>
  C2, as stated: for \<open>max_retries = 0\<close> the wrapper still invokes the operation at least
  once. It does not: the loop condition \<open>retries < max_retries\<close> is false at once, and the
  wrapper returns \<open>None\<close> without a call.
\<close>

theorem retry_zero_counterexample:
  "\<not> 1 \<le> invocations (snd (snd (retry_on_error 0 5 counting_operation 0)))
   \<and> retry_on_error 0 5 counting_operation 0 = (Inr None, 0, [])"
  by (simp add: retry_on_error_def wrapper_not_entered invocations_def)

text \<open>
  C2, amended: for \<open>max_retries = 1\<close> the wrapper invokes the operation exactly once,
  whatever it does; for \<open>max_retries = 0\<close> it does not invoke the operation, leaves the
  state as it is and returns \<open>None\<close>.
\<close>

theorem retry_one_attempt_zero_none:
  "invocations (snd (snd (retry_on_error 1 d func s))) = 1
   \<and> fst (snd (retry_on_error 1 d func s)) = snd (func s)
   \<and> retry_on_error 0 d func s = (Inr None, s, [])"
proof -
  obtain r s' where fs: "func s = (r, s')" by (cases "func s")
  have "invocations (snd (snd (wrapper 1 d func 0 s))) = 1
        \<and> fst (snd (wrapper 1 d func 0 s)) = s'"
  proof (cases r)
    case (Inl e)
    with fs show ?thesis
      by (simp add: wrapper_last_failure [of 0 1 func s e s'] invocations_def)
  next
    case (Inr v)
    with fs show ?thesis
      by (simp add: wrapper_success [of 0 1 func s v s'] invocations_def)
  qed
  then show ?thesis
    by (simp add: retry_on_error_def wrapper_not_entered fs)
qed

section \<open>Trimming, and what the retry loop can return\<close>






section \<open>The generation client\<close>

lemma remote_logging [simp]: "remote (logging ev w) = remote w"
  by (simp add: logging_def)

lemma initialize_genai_model:
  "initialize_genai self w = (Inr u, self', w') \<Longrightarrow>
   \<exists>cfg. self' = self\<lparr>model := Some \<lparr>handle_model_name = model_name self, generation_config = cfg\<rparr>\<rparr>
         \<and> resolve_config (cls_MODEL_CONFIGS w) (model_name self) = Inr cfg"
  by (auto simp: initialize_genai_def initialize_genai_try_def load_dotenv_def Let_def
           split: option.splits if_splits sum.splits)


lemma body_api_raises:
  "\<forall>h m r. isl (fst (api h m r)) \<Longrightarrow> isl (fst (generate_content_body api message st))"
  unfolding generate_content_body_def generate_content_try_def Let_def
  apply (auto split: prod.splits sum.splits option.splits if_splits)
  by (metis fst_conv sum.disc(2))+











section \<open>The model registry and construction\<close>

lemma models_add_model_config:
  "set (get_available_models (add_model_config name config w)) =
     insert name (set (get_available_models w))"
  by (simp add: get_available_models_def add_model_config_def logging_def dom_update)

lemma map_of_add_model_config:
  "map_of (cls_MODEL_CONFIGS (add_model_config name config w)) =
     (map_of (cls_MODEL_CONFIGS w))(name \<mapsto> config)"
  by (simp add: add_model_config_def logging_def update_conv')

lemma register_all_Cons:
  "register_all ((name, config) # regs) w = register_all regs (add_model_config name config w)"
  by (simp add: register_all_def)

lemma models_register_all:
  "set (get_available_models (register_all regs w)) =
     set (get_available_models w) \<union> fst ` set regs"
proof (induction regs arbitrary: w)
  case Nil
  show ?case by (simp add: register_all_def)
next
  case (Cons reg regs)
  obtain name config where reg: "reg = (name, config)" by (cases reg)
  show ?case
    unfolding reg register_all_Cons Cons.IH models_add_model_config by auto
qed

lemma default_registered:
  "DEFAULT_MODEL \<in> set (get_available_models
      (register_all regs (w\<lparr>cls_MODEL_CONFIGS := MODEL_CONFIGS\<rparr>)))"
  unfolding models_register_all
  by (simp add: get_available_models_def MODEL_CONFIGS_def DEFAULT_MODEL_def)

lemma default_config_defined:
  "\<exists>dflt. map_of (cls_MODEL_CONFIGS
      (register_all regs (w\<lparr>cls_MODEL_CONFIGS := MODEL_CONFIGS\<rparr>))) DEFAULT_MODEL = Some dflt"
proof -
  have "DEFAULT_MODEL \<in> fst ` set (cls_MODEL_CONFIGS
      (register_all regs (w\<lparr>cls_MODEL_CONFIGS := MODEL_CONFIGS\<rparr>)))"
    using default_registered [of regs w] by (simp add: get_available_models_def)
  then show ?thesis
    by (metis domD dom_map_of_conv_image_fst)
qed

lemma resolve_config_present:
  "map_of configs DEFAULT_MODEL = Some dflt \<Longrightarrow> map_of configs name = Some cfg \<Longrightarrow>
   resolve_config configs name = Inr cfg"
  by (simp add: resolve_config_def dict_get_def)

lemma resolve_config_absent:
  "map_of configs DEFAULT_MODEL = Some dflt \<Longrightarrow> name \<notin> fst ` set configs \<Longrightarrow>
   resolve_config configs name = Inr dflt"
proof -
  assume d: "map_of configs DEFAULT_MODEL = Some dflt" and "name \<notin> fst ` set configs"
  then have "map_of configs name = None"
    by (simp add: map_of_eq_None_iff)
  with d show ?thesis
    by (simp add: resolve_config_def dict_get_def)
qed

text \<open>
  C6. On the registry as it starts and after any sequence of \<open>add_model_config\<close> calls,
  the lookup of lines 84-87 returns a configuration for every name. For a name that is
  not registered it returns the entry of \<open>gemini-2.5-flash\<close>; after
  \<open>add_model_config(name, config)\<close> it returns exactly \<open>config\<close> for \<open>name\<close>.
\<close>

theorem resolve_config_never_fails:
  "(\<exists>cfg. resolve_config (cls_MODEL_CONFIGS
        (register_all regs (w\<lparr>cls_MODEL_CONFIGS := MODEL_CONFIGS\<rparr>))) name = Inr cfg)
   \<and> (name \<notin> set (get_available_models
          (register_all regs (w\<lparr>cls_MODEL_CONFIGS := MODEL_CONFIGS\<rparr>))) \<longrightarrow>
        (\<exists>dflt. map_of (cls_MODEL_CONFIGS
              (register_all regs (w\<lparr>cls_MODEL_CONFIGS := MODEL_CONFIGS\<rparr>)))
              ''gemini-2.5-flash'' = Some dflt
           \<and> resolve_config (cls_MODEL_CONFIGS
              (register_all regs (w\<lparr>cls_MODEL_CONFIGS := MODEL_CONFIGS\<rparr>))) name = Inr dflt))
   \<and> resolve_config (cls_MODEL_CONFIGS (add_model_config name config
        (register_all regs (w\<lparr>cls_MODEL_CONFIGS := MODEL_CONFIGS\<rparr>)))) name = Inr config"
proof -
  let ?W = "register_all regs (w\<lparr>cls_MODEL_CONFIGS := MODEL_CONFIGS\<rparr>)"
  from default_config_defined [of regs w]
  obtain dflt where d: "map_of (cls_MODEL_CONFIGS ?W) DEFAULT_MODEL = Some dflt" by blast
  have a: "\<exists>cfg. resolve_config (cls_MODEL_CONFIGS ?W) name = Inr cfg"
    using d by (simp add: resolve_config_def)
  have b: "name \<notin> set (get_available_models ?W) \<longrightarrow>
        (\<exists>dflt. map_of (cls_MODEL_CONFIGS ?W) ''gemini-2.5-flash'' = Some dflt
           \<and> resolve_config (cls_MODEL_CONFIGS ?W) name = Inr dflt)"
    using d resolve_config_absent [OF d, of name]
    by (simp add: get_available_models_def DEFAULT_MODEL_def)
  from default_config_defined [of "regs @ [(name, config)]" w]
  obtain dflt' where d': "map_of (cls_MODEL_CONFIGS (add_model_config name config ?W))
      DEFAULT_MODEL = Some dflt'"
    by (auto simp: register_all_def)
  have c: "resolve_config (cls_MODEL_CONFIGS (add_model_config name config ?W)) name = Inr config"
    using d' by (rule resolve_config_present) (simp add: map_of_add_model_config)
  from a b c show ?thesis by blast
qed

theorem resolve_config_never_fails_witness:
  "''gemini-9'' \<notin> set (get_available_models (register_all
       [(''tuned'', \<lparr>temperature = 0.1, top_p = 0.5, top_k = 10, max_output_tokens = 100\<rparr>)]
       test_world))
   \<and> resolve_config (cls_MODEL_CONFIGS (register_all
       [(''tuned'', \<lparr>temperature = 0.1, top_p = 0.5, top_k = 10, max_output_tokens = 100\<rparr>)]
       test_world)) ''gemini-9''
     = Inr \<lparr>temperature = 0.5, top_p = 0.95, top_k = 40, max_output_tokens = 8000\<rparr>"
proof -
  have w: "test_world\<lparr>cls_MODEL_CONFIGS := MODEL_CONFIGS\<rparr> = test_world"
    by (simp add: test_world_def)
  have h: "''gemini-9'' \<notin> set (get_available_models (register_all
       [(''tuned'', \<lparr>temperature = 0.1, top_p = 0.5, top_k = 10, max_output_tokens = 100\<rparr>)]
       test_world))"
    unfolding models_register_all
    by (simp add: get_available_models_def test_world_def MODEL_CONFIGS_def)
  have d: "map_of (cls_MODEL_CONFIGS (register_all
       [(''tuned'', \<lparr>temperature = 0.1, top_p = 0.5, top_k = 10, max_output_tokens = 100\<rparr>)]
       test_world)) ''gemini-2.5-flash''
     = Some \<lparr>temperature = 0.5, top_p = 0.95, top_k = 40, max_output_tokens = 8000\<rparr>"
    by (simp add: register_all_def add_model_config_def logging_def test_world_def
          MODEL_CONFIGS_def)
  from resolve_config_never_fails [where regs =
       "[(''tuned'', \<lparr>temperature = 0.1, top_p = 0.5, top_k = 10, max_output_tokens = 100\<rparr>)]"
       and w = test_world and name = "''gemini-9''"]
  show ?thesis
    unfolding w using h d by auto
qed

text \<open>
  C8. The registry starts with exactly three entries, the default \<open>gemini-2.5-flash\<close>
  among them. \<open>add_model_config\<close> adds its name to the registered names and removes
  none, so after every sequence of calls the names are the old ones and the new ones, the
  default name is still registered, and the default lookup is defined.
\<close>

theorem registry_keeps_default:
  "get_available_models (w\<lparr>cls_MODEL_CONFIGS := MODEL_CONFIGS\<rparr>)
     = [''gemini-2.5-flash'', ''gemini-1.0-pro-latest'', ''gemini-2.5-pro'']
   \<and> DEFAULT_MODEL = ''gemini-2.5-flash''
   \<and> set (get_available_models (add_model_config name config w'))
       = insert name (set (get_available_models w'))
   \<and> set (get_available_models (register_all regs w'))
       = set (get_available_models w') \<union> fst ` set regs
   \<and> DEFAULT_MODEL \<in> set (get_available_models
        (register_all regs (w\<lparr>cls_MODEL_CONFIGS := MODEL_CONFIGS\<rparr>)))
   \<and> (\<exists>dflt. map_of (cls_MODEL_CONFIGS
        (register_all regs (w\<lparr>cls_MODEL_CONFIGS := MODEL_CONFIGS\<rparr>))) DEFAULT_MODEL = Some dflt
        \<and> resolve_config (cls_MODEL_CONFIGS
             (register_all regs (w\<lparr>cls_MODEL_CONFIGS := MODEL_CONFIGS\<rparr>))) DEFAULT_MODEL
           = Inr dflt)"
proof -
  have a: "get_available_models (w\<lparr>cls_MODEL_CONFIGS := MODEL_CONFIGS\<rparr>)
     = [''gemini-2.5-flash'', ''gemini-1.0-pro-latest'', ''gemini-2.5-pro'']"
    by (simp add: get_available_models_def MODEL_CONFIGS_def)
  from default_config_defined [of regs w]
  obtain dflt where d: "map_of (cls_MODEL_CONFIGS
        (register_all regs (w\<lparr>cls_MODEL_CONFIGS := MODEL_CONFIGS\<rparr>))) DEFAULT_MODEL = Some dflt"
    by blast
  have "resolve_config (cls_MODEL_CONFIGS
        (register_all regs (w\<lparr>cls_MODEL_CONFIGS := MODEL_CONFIGS\<rparr>))) DEFAULT_MODEL = Inr dflt"
    using d d by (rule resolve_config_present)
  with d a show ?thesis
    using models_add_model_config [of name config w'] models_register_all [of regs w']
      default_registered [of regs w]
    by (simp add: DEFAULT_MODEL_def)
qed

lemma initialize_genai_no_key:
  "environ w ''GOOGLE_API_KEY'' = None \<Longrightarrow> dotenv_file w ''GOOGLE_API_KEY'' = None \<Longrightarrow>
   initialize_genai self w =
     (Inl (ValueError ''GOOGLE_API_KEY environment variable not set''), self,
      logging (LogError (ValueError ''GOOGLE_API_KEY environment variable not set''))
        (load_dotenv w))"
  by (simp add: initialize_genai_def initialize_genai_try_def load_dotenv_def Let_def
        map_add_def)

lemma initialize_genai_key:
  "initialize_genai self w = (Inr u, self', w') \<Longrightarrow> genai_api_key w' \<noteq> None"
  by (auto simp: initialize_genai_def initialize_genai_try_def load_dotenv_def logging_def Let_def
           split: option.splits if_splits sum.splits)

text \<open>
  C7. When \<open>GOOGLE_API_KEY\<close> is neither in the environment nor in the \<open>.env\<close> file,
  construction raises \<open>ValueError\<close> at once: the only effects are the loaded environment
  and one error record, and no client exists. When construction succeeds, the client holds
  its model handle and the key has been configured.
\<close>

theorem GoogleApiCall_init_requires_key:
  "(environ w ''GOOGLE_API_KEY'' = None \<longrightarrow> dotenv_file w ''GOOGLE_API_KEY'' = None \<longrightarrow>
      GoogleApiCall_init name w =
        (Inl (ValueError ''GOOGLE_API_KEY environment variable not set''),
         logging (LogError (ValueError ''GOOGLE_API_KEY environment variable not set''))
           (load_dotenv w)))
   \<and> (fst (GoogleApiCall_init name w) = Inr c \<longrightarrow>
        (\<exists>h. model c = Some h \<and> handle_model_name h = model_name c)
        \<and> genai_api_key (snd (GoogleApiCall_init name w)) \<noteq> None)"
proof -
  let ?self = "\<lparr>model_name = (case name of None \<Rightarrow> DEFAULT_MODEL
                               | Some n \<Rightarrow> if n = [] then DEFAULT_MODEL else n),
                 model = None\<rparr>"
  have a: "environ w ''GOOGLE_API_KEY'' = None \<longrightarrow> dotenv_file w ''GOOGLE_API_KEY'' = None \<longrightarrow>
      GoogleApiCall_init name w =
        (Inl (ValueError ''GOOGLE_API_KEY environment variable not set''),
         logging (LogError (ValueError ''GOOGLE_API_KEY environment variable not set''))
           (load_dotenv w))"
    by (simp add: GoogleApiCall_init_def Let_def initialize_genai_no_key)
  have b: "fst (GoogleApiCall_init name w) = Inr c \<longrightarrow>
        (\<exists>h. model c = Some h \<and> handle_model_name h = model_name c)
        \<and> genai_api_key (snd (GoogleApiCall_init name w)) \<noteq> None"
  proof
    assume ok: "fst (GoogleApiCall_init name w) = Inr c"
    obtain r self' w' where i: "initialize_genai ?self w = (r, self', w')"
      by (cases "initialize_genai ?self w")
    from ok i obtain u where r: "r = Inr u" and c: "self' = c"
      by (cases r) (simp_all add: GoogleApiCall_init_def Let_def)
    from initialize_genai_model [OF i [unfolded r]] c
    have "\<exists>h. model c = Some h \<and> handle_model_name h = model_name c" by auto
    moreover from initialize_genai_key [OF i [unfolded r]] i r
    have "genai_api_key (snd (GoogleApiCall_init name w)) \<noteq> None"
      by (simp add: GoogleApiCall_init_def Let_def)
    ultimately show "(\<exists>h. model c = Some h \<and> handle_model_name h = model_name c)
        \<and> genai_api_key (snd (GoogleApiCall_init name w)) \<noteq> None" ..
  qed
  from a b show ?thesis ..
qed

theorem GoogleApiCall_init_requires_key_witness:
  "fst (GoogleApiCall_init None (test_world\<lparr>environ := Map.empty\<rparr>))
     = Inl (ValueError ''GOOGLE_API_KEY environment variable not set'')
   \<and> log (snd (GoogleApiCall_init None (test_world\<lparr>environ := Map.empty\<rparr>)))
     = [LogError (ValueError ''GOOGLE_API_KEY environment variable not set'')]
   \<and> fst (GoogleApiCall_init None test_world) = Inr test_client
   \<and> model test_client \<noteq> None"
proof -
  have h1: "environ (test_world\<lparr>environ := Map.empty\<rparr>) ''GOOGLE_API_KEY'' = None"
    by simp
  have h2: "dotenv_file (test_world\<lparr>environ := Map.empty\<rparr>) ''GOOGLE_API_KEY'' = None"
    by (simp add: test_world_def)
  have h3: "fst (GoogleApiCall_init None test_world) = Inr test_client"
    by (simp add: GoogleApiCall_init_def initialize_genai_def initialize_genai_try_def
          load_dotenv_def logging_def resolve_config_def dict_get_def Let_def test_world_def
          test_client_def MODEL_CONFIGS_def DEFAULT_MODEL_def)
  have l: "log (logging ev (load_dotenv (test_world\<lparr>environ := Map.empty\<rparr>))) = [ev]" for ev
    by (simp add: logging_def load_dotenv_def test_world_def)
  from GoogleApiCall_init_requires_key [where w = "test_world\<lparr>environ := Map.empty\<rparr>"
      and name = None]
    GoogleApiCall_init_requires_key [where w = test_world and name = None and c = test_client]
  show ?thesis
    using h1 h2 h3 l by auto
qed

section \<open>The session planner\<close>

lemma generate_content_api_raises:
  assumes "\<forall>h m r. isl (fst (api h m r))"
  shows "isl (fst (generate_content api message st))"
proof -
  let ?body = "generate_content_body api message"
  have fails: "\<forall>t. isl (fst (?body t))"
    using body_api_raises [OF assms] by blast
  have lt: "(0::int) < 3" by simp
  from wrapper_all_fail [where func = "?body" and retries = 0 and max_retries = 3
        and delay = 5 and s = st, OF fails lt]
  show ?thesis
    unfolding generate_content_def retry_on_error_def by auto
qed

text \<open>
  C10. \<open>get_available_phrases\<close> does not depend on its \<open>meditation_type\<close> argument:
  for any two types it gives the same result, which for a loaded table is the list of the
  values of the first column, in row order.
\<close>

theorem get_available_phrases_ignores_type:
  "get_available_phrases self t1 = get_available_phrases self t2
   \<and> get_available_phrases (self\<lparr>phrases_df := (name, col) # cols\<rparr>) t1 = Inr col"
  by (simp add: get_available_phrases_def)

lemma body_raises_on:
  "\<forall>h r. isl (fst (api h message r)) \<Longrightarrow> isl (fst (generate_content_body api message st))"
  unfolding generate_content_body_def generate_content_try_def Let_def
  apply (auto split: prod.splits sum.splits option.splits if_splits)
  by (metis fst_conv sum.disc(2))+

lemma generate_content_raises_on:
  assumes "\<forall>h r. isl (fst (api h message r))"
  shows "isl (fst (generate_content api message st))"
proof -
  let ?body = "generate_content_body api message"
  have fails: "\<forall>t. isl (fst (?body t))"
    using assms body_raises_on [of api message] by blast
  have lt: "(0::int) < 3" by simp
  from wrapper_all_fail [where func = "?body" and retries = 0 and max_retries = 3
        and delay = 5 and s = st, OF fails lt]
  show ?thesis
    unfolding generate_content_def retry_on_error_def by auto
qed

lemma create_session_plan_fallback:
  assumes d: "phrases_df self = (name, col) # cols"
    and raises: "isl (fst (generate_content api
        (build_ai_prompt repr_str mtype minutes
           (dict_get (case user_context of None \<Rightarrow> Map.empty | Some c \<Rightarrow> c)
              ''experience_level'' (PyStr ''beginner''))
           (dict_get (case user_context of None \<Rightarrow> Map.empty | Some c \<Rightarrow> c)
              ''mood'' (PyStr ''neutral''))
           (dict_get (case user_context of None \<Rightarrow> Map.empty | Some c \<Rightarrow> c)
              ''time_of_day'' (PyStr ''any''))
           (dict_get (case user_context of None \<Rightarrow> Map.empty | Some c \<Rightarrow> c)
              ''previous_sessions'' (PyStr ''none''))
           (take 37 col))
        (google_ai self, w)))"
  shows "fst (create_session_plan repr_str api self mtype minutes user_context w)
           = Inr (create_default_csv minutes)"
proof -
  from d have g: "get_available_phrases self mtype = Inr col"
    by (simp add: get_available_phrases_def)
  let ?ctx = "case user_context of None \<Rightarrow> Map.empty | Some c \<Rightarrow> c"
  let ?prompt = "build_ai_prompt repr_str mtype minutes
      (dict_get ?ctx ''experience_level'' (PyStr ''beginner''))
      (dict_get ?ctx ''mood'' (PyStr ''neutral''))
      (dict_get ?ctx ''time_of_day'' (PyStr ''any''))
      (dict_get ?ctx ''previous_sessions'' (PyStr ''none''))
      (take 37 col)"
  obtain r c w' evs where gc: "generate_content api ?prompt (google_ai self, w) = (r, (c, w'), evs)"
    by (metis prod.exhaust)
  with raises obtain e where r: "r = Inl e"
    by (cases r) simp_all
  show ?thesis
    by (simp only: create_session_plan_def g Let_def gc r sum.case prod.case fst_conv)
qed

text \<open>
  C5. When the call of \<open>generate_content\<close> on the prompt that \<open>create_session_plan\<close>
  builds raises, \<open>create_session_plan\<close> returns \<open>_create_default_csv\<close> of the duration,
  whatever the other arguments are: the four-row text for a duration of at most 10, the
  six-row text for a duration above 10 and of at most 20, and the seven-row text for a
  duration above 20. The prompt is built from the first 37 values of the first column of
  the phrase table.
\<close>

theorem create_session_plan_default_csv:
  \<open>(phrases_df self = (name, col) # cols \<longrightarrow>
      isl (fst (generate_content api
        (build_ai_prompt repr_str mtype minutes
           (dict_get (case user_context of None \<Rightarrow> Map.empty | Some c \<Rightarrow> c)
              ''experience_level'' (PyStr ''beginner''))
           (dict_get (case user_context of None \<Rightarrow> Map.empty | Some c \<Rightarrow> c)
              ''mood'' (PyStr ''neutral''))
           (dict_get (case user_context of None \<Rightarrow> Map.empty | Some c \<Rightarrow> c)
              ''time_of_day'' (PyStr ''any''))
           (dict_get (case user_context of None \<Rightarrow> Map.empty | Some c \<Rightarrow> c)
              ''previous_sessions'' (PyStr ''none''))
           (take 37 col))
        (google_ai self, w))) \<longrightarrow>
      fst (create_session_plan repr_str api self mtype minutes user_context w)
        = Inr (create_default_csv minutes))
   \<and> (minutes \<le> 10 \<longrightarrow> create_default_csv minutes = ''1,1,0\<newline>2,6,2\<newline>3,14,5\<newline>4,32,8'')
   \<and> (10 < minutes \<longrightarrow> minutes \<le> 20 \<longrightarrow>
        create_default_csv minutes
          = ''1,1,0\<newline>2,6,2\<newline>3,14,5\<newline>4,20,8\<newline>5,26,12\<newline>6,32,15'')
   \<and> (20 < minutes \<longrightarrow>
        create_default_csv minutes
          = ''1,1,0\<newline>2,6,3\<newline>3,14,6\<newline>4,20,10\<newline>5,26,15\<newline>6,32,20\<newline>7,35,25'')\<close>
proof -
  have \<open>(minutes \<le> 10 \<longrightarrow> create_default_csv minutes = ''1,1,0\<newline>2,6,2\<newline>3,14,5\<newline>4,32,8'')
   \<and> (10 < minutes \<longrightarrow> minutes \<le> 20 \<longrightarrow>
        create_default_csv minutes
          = ''1,1,0\<newline>2,6,2\<newline>3,14,5\<newline>4,20,8\<newline>5,26,12\<newline>6,32,15'')
   \<and> (20 < minutes \<longrightarrow>
        create_default_csv minutes
          = ''1,1,0\<newline>2,6,3\<newline>3,14,6\<newline>4,20,10\<newline>5,26,15\<newline>6,32,20\<newline>7,35,25'')\<close>
    by (simp add: create_default_csv_def)
  with create_session_plan_fallback [of self name col cols api repr_str mtype minutes
      user_context w]
  show ?thesis by blast
qed

theorem create_session_plan_default_csv_witness:
  \<open>fst (create_session_plan id failing_api test_planner ''breath_focus'' 8 None test_world)
     = Inr ''1,1,0\<newline>2,6,2\<newline>3,14,5\<newline>4,32,8''
   \<and> fst (create_session_plan id failing_api test_planner ''breath_focus'' 15 None test_world)
     = Inr ''1,1,0\<newline>2,6,2\<newline>3,14,5\<newline>4,20,8\<newline>5,26,12\<newline>6,32,15''
   \<and> fst (create_session_plan id failing_api test_planner ''breath_focus'' 25 None test_world)
     = Inr ''1,1,0\<newline>2,6,3\<newline>3,14,6\<newline>4,20,10\<newline>5,26,15\<newline>6,32,20\<newline>7,35,25''
   \<and> fst (create_session_plan id picky_api test_planner ''breath_focus'' 8 None test_world)
     = Inr ''1,1,0\<newline>2,6,2\<newline>3,14,5\<newline>4,32,8''
   \<and> fst (picky_api (the (model test_client)) ''hello'' ()) = Inr ''1,1,0''\<close>
proof -
  have h1: "phrases_df test_planner =
      (''id'', [PyInt 1, PyInt 2, PyInt 3]) # [(''phrase'', [PyStr ''a'', PyStr ''b'', PyStr ''c''])]"
    by (simp add: test_planner_def)
  have fails: "\<forall>h m r. isl (fst (failing_api h m r))"
    by (simp add: failing_api_def)
  have h2: "isl (fst (generate_content failing_api m (google_ai test_planner, test_world)))" for m
    using fails by (rule generate_content_api_raises)
  have h3: "(8::int) \<le> 10" "(10::int) < 15" "(15::int) \<le> 20" "(20::int) < 25"
    by simp_all
  have h4: \<open>isl (fst (generate_content picky_api
        (build_ai_prompt id ''breath_focus'' minutes a b c d ids) st))\<close> for minutes a b c d ids st
  proof -
    have \<open>\<forall>h r. isl (fst (picky_api h
        (build_ai_prompt id ''breath_focus'' minutes a b c d ids) r))\<close>
      by (simp add: picky_api_def build_ai_prompt_def)
    then show ?thesis
      using generate_content_raises_on [of picky_api
          "build_ai_prompt id ''breath_focus'' minutes a b c d ids" st]
      by blast
  qed
  have a: \<open>fst (create_session_plan id failing_api test_planner ''breath_focus'' 8 None test_world)
     = Inr ''1,1,0\<newline>2,6,2\<newline>3,14,5\<newline>4,32,8''\<close>
    using create_session_plan_default_csv [where self = test_planner and api = failing_api
      and w = test_world and repr_str = id and mtype = "''breath_focus''" and minutes = 8
      and user_context = None] h1 h2 h3
    by (metis (no_types, lifting))
  have b: \<open>fst (create_session_plan id failing_api test_planner ''breath_focus'' 15 None test_world)
     = Inr ''1,1,0\<newline>2,6,2\<newline>3,14,5\<newline>4,20,8\<newline>5,26,12\<newline>6,32,15''\<close>
    using create_session_plan_default_csv [where self = test_planner and api = failing_api
      and w = test_world and repr_str = id and mtype = "''breath_focus''" and minutes = 15
      and user_context = None] h1 h2 h3
    by (metis (no_types, lifting))
  have c: \<open>fst (create_session_plan id failing_api test_planner ''breath_focus'' 25 None test_world)
     = Inr ''1,1,0\<newline>2,6,3\<newline>3,14,6\<newline>4,20,10\<newline>5,26,15\<newline>6,32,20\<newline>7,35,25''\<close>
    using create_session_plan_default_csv [where self = test_planner and api = failing_api
      and w = test_world and repr_str = id and mtype = "''breath_focus''" and minutes = 25
      and user_context = None] h1 h2 h3
    by (metis (no_types, lifting))
  have d: \<open>fst (create_session_plan id picky_api test_planner ''breath_focus'' 8 None test_world)
     = Inr ''1,1,0\<newline>2,6,2\<newline>3,14,5\<newline>4,32,8''\<close>
    using create_session_plan_default_csv [where self = test_planner and api = picky_api
      and w = test_world and repr_str = id and mtype = "''breath_focus''" and minutes = 8
      and user_context = None] h1 h4 h3
    by (metis (no_types, lifting))
  have e: \<open>fst (picky_api (the (model test_client)) ''hello'' ()) = Inr ''1,1,0''\<close>
    by (simp add: picky_api_def)
  from a b c d e show ?thesis by blast
qed

section \<open>The introduction text\<close>

lemma str_int_20: "str_int 20 = ''20''"
  by (simp add: str_int_def digits_of_nat.simps)

lemma introduction_prompt_defined:
  "ctx ''meditation_type'' = Some mt \<Longrightarrow> ctx ''duration_minutes'' = Some dm \<Longrightarrow>
   \<exists>p. introduction_prompt repr_str ctx = Inr p"
  by (simp add: introduction_prompt_def)

lemma fallback_introduction_defined:
  \<open>ctx ''meditation_type'' = Some mt \<Longrightarrow> ctx ''duration_minutes'' = Some dm \<Longrightarrow>
   fallback_introduction repr_str ctx =
     Inr (''Welcome to your '' @ py_str repr_str dm @ ''-minute '' @ py_str repr_str mt
          @ '' practice. Take a moment to settle in and let's begin this journey together.'')\<close>
  by (simp add: fallback_introduction_def)

lemma generate_introduction_text_fallback:
  assumes p: "introduction_prompt repr_str ctx = Inr p"
    and raises: "isl (fst (generate_content api p st))"
  shows "fst (generate_introduction_text repr_str api ctx st)
           = fallback_introduction repr_str ctx"
proof -
  obtain r c w evs where gc: "generate_content api p st = (r, (c, w), evs)"
    by (metis prod.exhaust)
  with raises obtain e where r: "r = Inl e"
    by (cases r) simp_all
  show ?thesis
    by (simp only: generate_introduction_text_def p gc r sum.case prod.case fst_conv)
qed

lemma generate_introduction_text_total:
  assumes p: "introduction_prompt repr_str ctx = Inr p"
    and f: "fallback_introduction repr_str ctx = Inr t0"
  shows "\<exists>t. fst (generate_introduction_text repr_str api ctx st) = Inr t"
proof -
  obtain r c w evs where gc: "generate_content api p st = (r, (c, w), evs)"
    by (metis prod.exhaust)
  show ?thesis
  proof (cases r)
    case (Inl e)
    then show ?thesis
      by (simp only: generate_introduction_text_def p gc f sum.case prod.case fst_conv) blast
  next
    case (Inr v)
    then show ?thesis
      by (cases v)
         (simp_all only: generate_introduction_text_def p gc f sum.case prod.case option.case
            fst_conv, blast+)
  qed
qed

lemma sublist_20: \<open>sublist ''20'' ''Welcome to your 20-minute body_scan practice. Take a moment to settle in and let's begin this journey together.''\<close>
proof -
  have \<open>''Welcome to your 20-minute body_scan practice. Take a moment to settle in and let's begin this journey together.'' = ''Welcome to your '' @ ''20'' @ ''-minute body_scan practice. Take a moment to settle in and let's begin this journey together.''\<close>
    by simp
  then show ?thesis
    unfolding sublist_def by blast
qed

lemma sublist_body_scan: \<open>sublist ''body_scan'' ''Welcome to your 20-minute body_scan practice. Take a moment to settle in and let's begin this journey together.''\<close>
proof -
  have \<open>''Welcome to your 20-minute body_scan practice. Take a moment to settle in and let's begin this journey together.'' = ''Welcome to your 20-minute '' @ ''body_scan'' @ '' practice. Take a moment to settle in and let's begin this journey together.''\<close>
    by simp
  then show ?thesis
    unfolding sublist_def by blast
qed

text \<open>
  C4. For a context that holds the practice type and the duration,
  \<open>_generate_introduction_text\<close> always returns a text; when \<open>generate_content\<close> raises
  on the prompt, the text is the fallback sentence built from the duration and the practice
  type. With a remote service that always fails, a request for 20 minutes of
  \<open>body_scan\<close> yields the fallback sentence with \<open>20\<close> and \<open>body_scan\<close> in it.
\<close>

theorem generate_introduction_text_never_raises:
  \<open>(ctx ''meditation_type'' = Some mt \<longrightarrow> ctx ''duration_minutes'' = Some dm \<longrightarrow>
      (\<exists>t. fst (generate_introduction_text repr_str api ctx st) = Inr t)
      \<and> (\<forall>p. introduction_prompt repr_str ctx = Inr p \<longrightarrow>
             isl (fst (generate_content api p st)) \<longrightarrow>
             fst (generate_introduction_text repr_str api ctx st)
               = Inr (''Welcome to your '' @ py_str repr_str dm @ ''-minute '' @ py_str repr_str mt
                      @ '' practice. Take a moment to settle in and let's begin this journey together.'')))
   \<and> ((\<forall>h m r. isl (fst (api h m r))) \<longrightarrow>
        fst (generate_introduction_text repr_str api
               (build_introduction_context
                  (request\<lparr>meditation_type := ''body_scan'', duration_minutes := 20\<rparr>)) st)
          = Inr ''Welcome to your 20-minute body_scan practice. Take a moment to settle in and let's begin this journey together.'')
   \<and> sublist ''20'' ''Welcome to your 20-minute body_scan practice. Take a moment to settle in and let's begin this journey together.''
   \<and> sublist ''body_scan'' ''Welcome to your 20-minute body_scan practice. Take a moment to settle in and let's begin this journey together.''\<close>
proof -
  have a: \<open>ctx ''meditation_type'' = Some mt \<longrightarrow> ctx ''duration_minutes'' = Some dm \<longrightarrow>
      (\<exists>t. fst (generate_introduction_text repr_str api ctx st) = Inr t)
      \<and> (\<forall>p. introduction_prompt repr_str ctx = Inr p \<longrightarrow>
             isl (fst (generate_content api p st)) \<longrightarrow>
             fst (generate_introduction_text repr_str api ctx st)
               = Inr (''Welcome to your '' @ py_str repr_str dm @ ''-minute '' @ py_str repr_str mt
                      @ '' practice. Take a moment to settle in and let's begin this journey together.''))\<close>
    using introduction_prompt_defined [of ctx mt dm repr_str]
      fallback_introduction_defined [of ctx mt dm repr_str]
      generate_introduction_text_total [of repr_str ctx _ _ api st]
      generate_introduction_text_fallback [of repr_str ctx _ api st]
    by metis
  let ?ctx = "build_introduction_context
                (request\<lparr>meditation_type := ''body_scan'', duration_minutes := 20\<rparr>)"
  have k1: "?ctx ''meditation_type'' = Some (PyStr ''body_scan'')"
    by (cases "checkin_data request") (simp_all add: build_introduction_context_def)
  have k2: "?ctx ''duration_minutes'' = Some (PyInt 20)"
    by (cases "checkin_data request") (simp_all add: build_introduction_context_def)
  have b: \<open>(\<forall>h m r. isl (fst (api h m r))) \<longrightarrow>
        fst (generate_introduction_text repr_str api ?ctx st)
          = Inr ''Welcome to your 20-minute body_scan practice. Take a moment to settle in and let's begin this journey together.''\<close>
  proof
    assume fails: "\<forall>h m r. isl (fst (api h m r))"
    from introduction_prompt_defined [OF k1 k2]
    obtain p where p: "introduction_prompt repr_str ?ctx = Inr p" by blast
    from fails have "isl (fst (generate_content api p st))"
      by (rule generate_content_api_raises)
    with p have "fst (generate_introduction_text repr_str api ?ctx st)
           = fallback_introduction repr_str ?ctx"
      by (rule generate_introduction_text_fallback)
    also have \<open>\<dots> = Inr ''Welcome to your 20-minute body_scan practice. Take a moment to settle in and let's begin this journey together.''\<close>
      unfolding fallback_introduction_defined [OF k1 k2] by (simp add: str_int_20)
    finally show \<open>fst (generate_introduction_text repr_str api ?ctx st)
          = Inr ''Welcome to your 20-minute body_scan practice. Take a moment to settle in and let's begin this journey together.''\<close> .
  qed
  from a b sublist_20 sublist_body_scan show ?thesis by blast
qed

theorem generate_introduction_text_never_raises_witness:
  \<open>fst (generate_introduction_text id failing_api
          (build_introduction_context
             \<lparr>meditation_type = ''body_scan'', duration_minutes = 20, user_profile = None,
              checkin_data = None\<rparr>)
          (test_client, test_world))
     = Inr ''Welcome to your 20-minute body_scan practice. Take a moment to settle in and let's begin this journey together.''\<close>
proof -
  let ?ctx = "build_introduction_context
             \<lparr>meditation_type = ''body_scan'', duration_minutes = 20, user_profile = None,
              checkin_data = None\<rparr>"
  have k1: "?ctx ''meditation_type'' = Some (PyStr ''body_scan'')"
    by (simp add: build_introduction_context_def)
  have k2: "?ctx ''duration_minutes'' = Some (PyInt 20)"
    by (simp add: build_introduction_context_def)
  from introduction_prompt_defined [OF k1 k2]
  obtain p where p: "introduction_prompt id ?ctx = Inr p" by blast
  have fails: "\<forall>h m r. isl (fst (failing_api h m r))"
    by (simp add: failing_api_def)
  then have raises: "isl (fst (generate_content failing_api p (test_client, test_world)))"
    by (rule generate_content_api_raises)
  have s: \<open>''Welcome to your '' @ py_str id (PyInt 20) @ ''-minute '' @ py_str id (PyStr ''body_scan'')
          @ '' practice. Take a moment to settle in and let's begin this journey together.''
        = ''Welcome to your 20-minute body_scan practice. Take a moment to settle in and let's begin this journey together.''\<close>
    by (simp add: str_int_20)
  from generate_introduction_text_never_raises [where ctx = ?ctx
      and mt = "PyStr ''body_scan''" and dm = "PyInt 20" and repr_str = id and api = failing_api
      and st = "(test_client, test_world)"]
  show ?thesis
    using k1 k2 p raises unfolding s by blast
qed

lemma body_capturing:
  "model c = Some h \<Longrightarrow>
   \<exists>W. generate_content_body capturing_api p (c, w) = (Inr ''ok'', c, W)
       \<and> remote W = remote w @ [p]"
  by (simp add: generate_content_body_def generate_content_try_def capturing_api_def Let_def
        strip_def isspace_def logging_def)

lemma generate_introduction_text_capturing:
  assumes p: "introduction_prompt repr_str ctx = Inr p" and m: "model c = Some h"
  shows "fst (generate_introduction_text repr_str capturing_api ctx (c, w)) = Inr ''ok''
       \<and> remote (snd (fst (snd (generate_introduction_text repr_str capturing_api ctx (c, w)))))
           = remote w @ [p]"
proof -
  from body_capturing [OF m, of p w]
  obtain W where b: "generate_content_body capturing_api p (c, w) = (Inr ''ok'', c, W)"
    and r: "remote W = remote w @ [p]"
    by blast
  have lt: "(0::int) < 3" by simp
  have gc: "generate_content capturing_api p (c, w) = (Inr (Some ''ok''), (c, W), [Invoked])"
    unfolding generate_content_def retry_on_error_def
    using lt b by (rule wrapper_success)
  have ok: "strip ''ok'' = ''ok''"
    by (simp add: strip_def isspace_def)
  show ?thesis
    by (simp add: generate_introduction_text_def p gc ok r)
qed

lemma introduction_prompt_no_checkin:
  \<open>introduction_prompt repr_str
     (build_introduction_context (request\<lparr>duration_minutes := 15, checkin_data := None\<rparr>))
   = Inr (introduction_prompt_head
          @ (case user_profile request of
               None \<Rightarrow> ''New meditator''
             | Some p \<Rightarrow> if p = [] then ''New meditator'' else p)
          @ ''\<newline>- Today's practice: '' @ meditation_type request
          @ '' for '' @ str_int 15
          @ '' minutes\<newline>- Current agitation level: '' @ ''unknown''
          @ ''/5\<newline>- Energy level: '' @ ''normal''
          @ ''\<newline>- Present emotions: '' @ ''[]''
          @ ''\<newline>- Preference: '' @ ''auto''
          @ introduction_prompt_instructions)\<close>
  by (simp add: introduction_prompt_def build_introduction_context_def dict_get_def)

text \<open>
  C9. For a request of 15 minutes without check-in data the prompt is built, it contains
  \<open>Current agitation level: unknown/5\<close> and \<open>Energy level: normal\<close>, and it is the one
  message a remote service that records its messages receives.
\<close>

theorem introduction_prompt_defaults:
  \<open>\<exists>p. introduction_prompt repr_str
          (build_introduction_context (request\<lparr>duration_minutes := 15, checkin_data := None\<rparr>))
        = Inr p
      \<and> sublist ''Current agitation level: unknown/5'' p
      \<and> sublist ''Energy level: normal'' p
      \<and> remote (snd (fst (snd (generate_introduction_text repr_str capturing_api
           (build_introduction_context (request\<lparr>duration_minutes := 15, checkin_data := None\<rparr>))
           (c\<lparr>model := Some h\<rparr>, w\<lparr>remote := []\<rparr>))))) = [p]\<close>
proof -
  let ?ctx = "build_introduction_context (request\<lparr>duration_minutes := 15, checkin_data := None\<rparr>)"
  let ?prof = "case user_profile request of
               None \<Rightarrow> ''New meditator''
             | Some p \<Rightarrow> if p = [] then ''New meditator'' else p"
  define ps1 where \<open>ps1 = introduction_prompt_head @ ?prof
          @ ''\<newline>- Today's practice: '' @ meditation_type request
          @ '' for '' @ str_int 15 @ '' minutes\<newline>- ''\<close>
  define ss2 where \<open>ss2 = ''\<newline>- Present emotions: []\<newline>- Preference: auto''
          @ introduction_prompt_instructions\<close>
  define p where \<open>p = ps1 @ ''Current agitation level: unknown/5'' @ ''\<newline>- ''
          @ ''Energy level: normal'' @ ss2\<close>
  have pr: "introduction_prompt repr_str ?ctx = Inr p"
    unfolding introduction_prompt_no_checkin p_def ps1_def ss2_def by simp
  have s1: \<open>sublist ''Current agitation level: unknown/5'' p\<close>
    unfolding p_def by (rule sublist_appendI)
  have \<open>p = (ps1 @ ''Current agitation level: unknown/5'' @ ''\<newline>- '')
          @ ''Energy level: normal'' @ ss2\<close>
    unfolding p_def by simp
  then have s2: \<open>sublist ''Energy level: normal'' p\<close>
    unfolding sublist_def by blast
  have m: "model (c\<lparr>model := Some h\<rparr>) = Some h" by simp
  from generate_introduction_text_capturing [OF pr m, of "w\<lparr>remote := []\<rparr>"]
  have "remote (snd (fst (snd (generate_introduction_text repr_str capturing_api ?ctx
           (c\<lparr>model := Some h\<rparr>, w\<lparr>remote := []\<rparr>))))) = [p]"
    by simp
  with pr s1 s2 show ?thesis by blast
qed

end
